theory Spec2Isabelle
  imports Complex_Main "HOL-Library.Char_ord" "HOL-Library.List_Lexorder" "HOL-Library.Product_Lexorder"
begin

section \<open>Sheet cells and their coercions\<close>

text \<open>
  The sheets arrive through \<^verbatim>\<open>get_all_records\<close>, which hands every cell over as text
  or as a number. An identifier cell is a text or an integer. What pandas makes of the cells
  of the \<open>Qty\<close> and \<open>Sale Price\<close> columns, and the arithmetic of the resulting int64 or
  float64 columns, belong to the library and not to the program: \<open>process_data_with\<close>
  below takes them as arguments, and what is said about the totals is said for all of them.
  A missing value (pandas' NaN, NaT) is \<open>None\<close>.
\<close>

datatype cell = CStr string | CInt int

definition is_digit :: "char \<Rightarrow> bool" where
  "is_digit c = (48 \<le> (of_char c :: nat) \<and> (of_char c :: nat) \<le> 57)"

definition digit_val :: "char \<Rightarrow> nat" where
  "digit_val c = of_char c - 48"

definition digits_val :: "string \<Rightarrow> nat" where
  "digits_val s = foldl (\<lambda>a c. 10 * a + digit_val c) 0 s"

definition parse_nat :: "string \<Rightarrow> nat option" where
  "parse_nat s = (if s \<noteq> [] \<and> list_all is_digit s then Some (digits_val s) else None)"

text \<open>
  The reading of a numeric cell on the whole numbers, for the examples and for what does not
  depend on the numbers: an integer stays, a text made of an optional sign and decimal digits
  is that integer, any other text is NaN. This is what
  \<^verbatim>\<open>pd.to_numeric(col, errors='coerce')\<close> gives for integer cells, for these integer
  literals and for texts that are no number at all, such as \<^verbatim>\<open>abc\<close>. It is not what
  pandas gives for the other texts it reads as numbers (\<^verbatim>\<open>10.50\<close>, \<^verbatim>\<open>1e3\<close>), whose
  values are float64: the general statement about the totals is made for every reading, and
  the examples have integers and integer literals in their numeric cells.
\<close>

fun parse_int :: "string \<Rightarrow> int option" where
  "parse_int [] = None"
| "parse_int (c # s) =
     (if c = CHR ''-'' then map_option (\<lambda>n. - int n) (parse_nat s)
      else if c = CHR ''+'' then map_option int (parse_nat s)
      else map_option int (parse_nat (c # s)))"

fun to_numeric :: "cell \<Rightarrow> int option" where
  "to_numeric (CInt i) = Some i"
| "to_numeric (CStr s) = parse_int s"

definition digit_char :: "nat \<Rightarrow> char" where
  "digit_char n = char_of (48 + n)"

function str_nat :: "nat \<Rightarrow> string" where
  "str_nat n = (if n < 10 then [digit_char n] else str_nat (n div 10) @ [digit_char (n mod 10)])"
  by pat_completeness auto
termination
  by (relation "measure id") auto

declare str_nat.simps [simp del]

definition str_int :: "int \<Rightarrow> string" where
  "str_int i = (if i < 0 then CHR ''-'' # str_nat (nat (- i)) else str_nat (nat i))"

text \<open>\<^verbatim>\<open>col.astype(str)\<close> on one cell.\<close>

fun astype_str :: "cell \<Rightarrow> string" where
  "astype_str (CStr s) = s"
| "astype_str (CInt i) = str_int i"

section \<open>Calendar dates\<close>

text \<open>
  A date is (year, month, day); the lexicographic order on the triple is the chronological
  order, as for Python's \<^verbatim>\<open>date\<close> and pandas' \<^verbatim>\<open>Timestamp\<close> at midnight.
\<close>

type_synonym date = "nat \<times> nat \<times> nat"

definition is_leap :: "nat \<Rightarrow> bool" where
  "is_leap y = (y mod 4 = 0 \<and> (y mod 100 \<noteq> 0 \<or> y mod 400 = 0))"

definition days_in_month :: "nat \<Rightarrow> nat \<Rightarrow> nat" where
  "days_in_month y m =
     (if m = 2 then (if is_leap y then 29 else 28)
      else if m = 4 \<or> m = 6 \<or> m = 9 \<or> m = 11 then 30 else 31)"

definition month_abbrs :: "string list" where
  "month_abbrs = [''jan'', ''feb'', ''mar'', ''apr'', ''may'', ''jun'',
                  ''jul'', ''aug'', ''sep'', ''oct'', ''nov'', ''dec'']"

definition lower_char :: "char \<Rightarrow> char" where
  "lower_char c =
     (if 65 \<le> (of_char c :: nat) \<and> (of_char c :: nat) \<le> 90 then char_of (of_char c + (32 :: nat)) else c)"

fun index_of :: "'a \<Rightarrow> 'a list \<Rightarrow> nat option" where
  "index_of x [] = None"
| "index_of x (y # ys) = (if x = y then Some 0 else map_option Suc (index_of x ys))"

text \<open>\<^verbatim>\<open>%b\<close>: an abbreviated month name, in any letter case.\<close>

definition parse_month :: "string \<Rightarrow> nat option" where
  "parse_month s = map_option Suc (index_of (map lower_char s) month_abbrs)"

text \<open>\<^verbatim>\<open>%d\<close>: the pattern \<^verbatim>\<open>3[0-1]|[1-2]\d|0[1-9]|[1-9]| [1-9]\<close>.\<close>

fun parse_day :: "string \<Rightarrow> nat option" where
  "parse_day [a] = (if is_digit a \<and> a \<noteq> CHR ''0'' then Some (digit_val a) else None)"
| "parse_day [a, b] =
     (if a = CHR ''3'' \<and> (b = CHR ''0'' \<or> b = CHR ''1'') then Some (30 + digit_val b)
      else if (a = CHR ''1'' \<or> a = CHR ''2'') \<and> is_digit b then Some (10 * digit_val a + digit_val b)
      else if (a = CHR ''0'' \<or> a = CHR '' '') \<and> is_digit b \<and> b \<noteq> CHR ''0'' then Some (digit_val b)
      else None)"
| "parse_day _ = None"

text \<open>\<^verbatim>\<open>%Y\<close>: exactly four digits.\<close>

definition parse_year :: "string \<Rightarrow> nat option" where
  "parse_year s = (if length s = 4 \<and> list_all is_digit s then Some (digits_val s) else None)"

fun split_on :: "char \<Rightarrow> string \<Rightarrow> string list" where
  "split_on c [] = [[]]"
| "split_on c (x # xs) =
     (if x = c then [] # split_on c xs
      else (case split_on c xs of [] \<Rightarrow> [[x]] | w # ws \<Rightarrow> (x # w) # ws))"

text \<open>
  A nanosecond \<^verbatim>\<open>Timestamp\<close> at midnight exists from 1677-09-22 to 2262-04-11; a date
  outside is out of bounds and coerced to NaT.
\<close>

definition in_bounds :: "date \<Rightarrow> bool" where
  "in_bounds d = ((1677, 9, 22) \<le> d \<and> d \<le> (2262, 4, 11))"

text \<open>
  \<^verbatim>\<open>pd.to_datetime(col, format="%d-%b-%Y", errors='coerce')\<close> on one cell: the whole text
  has to be day, hyphen, month abbreviation, hyphen, year, and name a day that exists.
\<close>

definition to_datetime :: "string \<Rightarrow> date option" where
  "to_datetime s =
     (case split_on CHR ''-'' s of
        [ds, ms, ys] \<Rightarrow>
          (case parse_day ds of None \<Rightarrow> None | Some d \<Rightarrow>
          (case parse_month ms of None \<Rightarrow> None | Some m \<Rightarrow>
          (case parse_year ys of None \<Rightarrow> None | Some y \<Rightarrow>
             if d \<le> days_in_month y m \<and> in_bounds (y, m, d) then Some (y, m, d) else None)))
      | _ \<Rightarrow> None)"

section \<open>Rows\<close>

text \<open>
  A row of a sales sheet and a row of the product sheet, as fetched. Only the columns that
  the program reads are kept. The merged frame takes its \<open>Platform\<close> column from the product
  sheet (the column selection of the merge), so a sales row carries none.
\<close>

record 'c sales_row_of =
  s_Date :: string
  s_Item_Id :: cell
  s_City :: string
  s_Brand :: string
  s_Qty :: 'c

record 'c product_row_of =
  p_Item_Id :: cell
  p_SKU :: string
  p_Category_Name :: string
  p_Sub_Category_Name :: string
  p_Sale_Price :: 'c
  p_Platform :: string

text \<open>
  The type \<open>'c\<close> is that of the raw numeric cells, whatever they are (texts, integers,
  floats). In the examples they are texts or integers.
\<close>

type_synonym sales_row = "cell sales_row_of"

type_synonym product_row = "cell product_row_of"

text \<open>
  The same rows after the column conversions of \<open>process_data\<close>, and a row of the merged
  frame, with the SKU column already renamed to \<open>Product Name\<close>. The type \<open>'n\<close> is that of
  the numbers in the numeric columns; in the examples they are integers.
\<close>

record 'n sales_rec_of =
  n_Date :: "date option"
  n_Item_Id :: string
  n_City :: string
  n_Brand :: string
  n_Qty :: "'n option"

record 'n product_rec_of =
  c_Item_Id :: string
  c_SKU :: string
  c_Category_Name :: string
  c_Sub_Category_Name :: string
  c_Sale_Price :: "'n option"
  c_Platform :: string

record 'n enriched_of =
  Date :: "date option"
  Item_Id :: string
  City :: string
  Brand :: string
  Qty :: "'n option"
  Product_Name :: "string option"
  Category_Name :: "string option"
  Sub_Category_Name :: "string option"
  Sale_Price :: "'n option"
  Platform :: "string option"
  Total_Sales :: 'n

type_synonym sales_rec = "int sales_rec_of"

type_synonym product_rec = "int product_rec_of"

type_synonym enriched = "int enriched_of"

section \<open>process\_data\<close>

text \<open>
  First on the whole numbers, with the reading \<open>to_numeric\<close> of the cells; then, as
  \<open>process_data_with\<close>, for any reading and any column arithmetic.
\<close>

definition coerce_sales :: "sales_row \<Rightarrow> sales_rec" where
  "coerce_sales s =
     \<lparr>n_Date = to_datetime (s_Date s), n_Item_Id = astype_str (s_Item_Id s),
      n_City = s_City s, n_Brand = s_Brand s, n_Qty = to_numeric (s_Qty s)\<rparr>"

definition coerce_product :: "product_row \<Rightarrow> product_rec" where
  "coerce_product p =
     \<lparr>c_Item_Id = astype_str (p_Item_Id p), c_SKU = p_SKU p,
      c_Category_Name = p_Category_Name p, c_Sub_Category_Name = p_Sub_Category_Name p,
      c_Sale_Price = to_numeric (p_Sale_Price p), c_Platform = p_Platform p\<rparr>"

definition nat_count :: "'n sales_rec_of list \<Rightarrow> nat" where
  "nat_count df = length (filter (\<lambda>r. n_Date r = None) df)"

definition dropna_Date :: "'n sales_rec_of list \<Rightarrow> 'n sales_rec_of list" where
  "dropna_Date df = filter (\<lambda>r. n_Date r \<noteq> None) df"

text \<open>The product of two columns propagates NaN; \<^verbatim>\<open>fillna(0)\<close> replaces it.\<close>

fun mul_nan :: "int option \<Rightarrow> int option \<Rightarrow> int option" where
  "mul_nan (Some q) (Some p) = Some (q * p)"
| "mul_nan _ _ = None"

fun fillna0 :: "int option \<Rightarrow> int" where
  "fillna0 None = 0"
| "fillna0 (Some v) = v"

text \<open>
  One row of the left join with its \<open>Total Sales\<close>: the sales columns, then the catalog
  columns of the matching product row, or NaN in each of them when there is none.
\<close>

fun join :: "sales_rec \<Rightarrow> product_rec option \<Rightarrow> enriched" where
  "join s None =
     \<lparr>Date = n_Date s, Item_Id = n_Item_Id s, City = n_City s, Brand = n_Brand s, Qty = n_Qty s,
      Product_Name = None, Category_Name = None, Sub_Category_Name = None,
      Sale_Price = None, Platform = None, Total_Sales = fillna0 (mul_nan (n_Qty s) None)\<rparr>"
| "join s (Some p) =
     \<lparr>Date = n_Date s, Item_Id = n_Item_Id s, City = n_City s, Brand = n_Brand s, Qty = n_Qty s,
      Product_Name = Some (c_SKU p), Category_Name = Some (c_Category_Name p),
      Sub_Category_Name = Some (c_Sub_Category_Name p),
      Sale_Price = c_Sale_Price p, Platform = Some (c_Platform p),
      Total_Sales = fillna0 (mul_nan (n_Qty s) (c_Sale_Price p))\<rparr>"

definition matches :: "'n product_rec_of list \<Rightarrow> 'n sales_rec_of \<Rightarrow> 'n product_rec_of list" where
  "matches product_df s = filter (\<lambda>p. c_Item_Id p = n_Item_Id s) product_df"

text \<open>
  \<^verbatim>\<open>pd.merge(sales_df, product_df[...], on='Item Id', how='left')\<close>: the sales rows in
  their order, each once per matching product row, or once alone.
\<close>

definition merge_row :: "product_rec list \<Rightarrow> sales_rec \<Rightarrow> enriched list" where
  "merge_row product_df s =
     (if matches product_df s = [] then [join s None]
      else map (\<lambda>p. join s (Some p)) (matches product_df s))"

definition merge_left :: "sales_rec list \<Rightarrow> product_rec list \<Rightarrow> enriched list" where
  "merge_left sales_df product_df = concat (map (merge_row product_df) sales_df)"

text \<open>
  The value \<open>process_data\<close> returns: the merged frame, or the empty frame when no row has a
  date left.
\<close>

definition process_data :: "sales_row list list \<Rightarrow> product_row list \<Rightarrow> enriched list" where
  "process_data sales_dfs product_df =
     (let sales_df = dropna_Date (map coerce_sales (concat sales_dfs))
      in if sales_df = [] then []
         else merge_left sales_df (map coerce_product product_df))"

text \<open>
  What \<open>process_data\<close> writes to standard output about the dates, in order (the other
  debugging prints, of column names and sample values, are left out).
\<close>

datatype print_line = Found_NaT nat | All_rows_dropped

definition process_data_stdout :: "sales_row list list \<Rightarrow> product_row list \<Rightarrow> print_line list" where
  "process_data_stdout sales_dfs product_df =
     (let sales_df = map coerce_sales (concat sales_dfs)
      in (if nat_count sales_df > 0 then [Found_NaT (nat_count sales_df)] else [])
         @ (if dropna_Date sales_df = [] then [All_rows_dropped] else []))"

section \<open>process\_data for any numbers\<close>









section \<open>The filters of the dashboard\<close>

text \<open>
  The values of the sidebar and page widgets are inputs of the page: \<open>date_range\<close> is the
  tuple \<^verbatim>\<open>st.date_input\<close> returns (none, one or two dates), \<open>show_raw\<close> the checkbox. A
  selection over a column that holds NaN can hold NaN (\<open>None\<close>) itself.
\<close>

record widgets =
  cities :: "string list"
  categories :: "string option list"
  date_range :: "date list"
  platforms :: "string option list"
  show_raw :: bool

text \<open>\<^verbatim>\<open>Series.isin\<close>: membership, where NaN is found in a list that holds NaN.\<close>

definition isin :: "('r \<Rightarrow> 'a) \<Rightarrow> 'a list \<Rightarrow> 'r list \<Rightarrow> bool list" where
  "isin col vals df = map (\<lambda>r. col r \<in> set vals) df"

text \<open>The comparisons of the \<open>Date\<close> column with one bound; NaT compares false.\<close>

fun date_ge :: "date option \<Rightarrow> date \<Rightarrow> bool" where
  "date_ge None b = False"
| "date_ge (Some d) b = (b \<le> d)"

fun date_le :: "date option \<Rightarrow> date \<Rightarrow> bool" where
  "date_le None b = False"
| "date_le (Some d) b = (d \<le> b)"

text \<open>\<^verbatim>\<open>m1 & m2\<close> on boolean columns, and \<^verbatim>\<open>df[mask]\<close>.\<close>

definition mask_and :: "bool list \<Rightarrow> bool list \<Rightarrow> bool list" where
  "mask_and a b = map2 (\<and>) a b"

definition select_rows :: "'r list \<Rightarrow> bool list \<Rightarrow> 'r list" where
  "select_rows df msk = map fst (filter snd (zip df msk))"

text \<open>The row labels that \<^verbatim>\<open>df[mask]\<close> keeps (the frame has the labels 0, 1, ...).\<close>

definition kept_labels :: "bool list \<Rightarrow> nat set" where
  "kept_labels msk = set (filter (\<lambda>i. msk ! i) [0..<length msk])"

definition filter_data :: "enriched list \<Rightarrow> string list \<Rightarrow> string option list \<Rightarrow> date \<Rightarrow> date \<Rightarrow> enriched list" where
  "filter_data df cs cats d0 d1 =
     select_rows df
       (mask_and (mask_and (mask_and (isin City cs df) (isin Category_Name cats df))
          (map (\<lambda>r. date_ge (Date r) d0) df))
          (map (\<lambda>r. date_le (Date r) d1) df))"

definition platform_filter :: "enriched list \<Rightarrow> string option list \<Rightarrow> enriched list" where
  "platform_filter filtered_df ps = select_rows filtered_df (isin Platform ps filtered_df)"

section \<open>Aggregation\<close>

text \<open>
  \<^verbatim>\<open>groupby(key)\<close> with its defaults: the groups are the distinct keys in ascending order,
  and a row whose key is missing belongs to no group. \<^verbatim>\<open>sum\<close> skips NaN.
\<close>

definition group_keys :: "('r \<Rightarrow> 'k::linorder option) \<Rightarrow> 'r list \<Rightarrow> 'k list" where
  "group_keys key df = sort (remdups (List.map_filter key df))"

definition group_rows :: "('r \<Rightarrow> 'k option) \<Rightarrow> 'r list \<Rightarrow> 'k \<Rightarrow> 'r list" where
  "group_rows key df k = filter (\<lambda>r. key r = Some k) df"

definition sum_Total_Sales :: "enriched list \<Rightarrow> int" where
  "sum_Total_Sales df = sum_list (map Total_Sales df)"

definition sum_Qty :: "enriched list \<Rightarrow> int" where
  "sum_Qty df = sum_list (map (\<lambda>r. fillna0 (Qty r)) df)"

definition groupby_sales :: "(enriched \<Rightarrow> 'k::linorder option) \<Rightarrow> enriched list \<Rightarrow> ('k \<times> int) list" where
  "groupby_sales key df = map (\<lambda>k. (k, sum_Total_Sales (group_rows key df k))) (group_keys key df)"

definition groupby_agg :: "(enriched \<Rightarrow> 'k::linorder option) \<Rightarrow> enriched list \<Rightarrow> ('k \<times> int \<times> int) list" where
  "groupby_agg key df =
     map (\<lambda>k. (k, sum_Qty (group_rows key df k), sum_Total_Sales (group_rows key df k))) (group_keys key df)"

record kpis =
  total_sales :: int
  total_qty :: int
  total_orders :: nat
  avg_selling_price :: rat

definition kpis_of :: "enriched list \<Rightarrow> kpis" where
  "kpis_of filtered_df =
     \<lparr>total_sales = sum_Total_Sales filtered_df, total_qty = sum_Qty filtered_df,
      total_orders = length filtered_df,
      avg_selling_price =
        (if sum_Qty filtered_df > 0 then of_int (sum_Total_Sales filtered_df) / of_int (sum_Qty filtered_df)
         else 0)\<rparr>"

definition city_sales :: "enriched list \<Rightarrow> (string \<times> int) list" where
  "city_sales filtered_df = groupby_sales (\<lambda>r. Some (City r)) filtered_df"

definition category_sales :: "enriched list \<Rightarrow> (string \<times> int) list" where
  "category_sales filtered_df = groupby_sales Category_Name filtered_df"

text \<open>
  \<^verbatim>\<open>pivot_table(values=v, index='Product Name', columns='Platform', aggfunc='sum',
  fill_value=0)\<close>: the column labels, and one line of cells per product name.
\<close>

definition pivot_table :: "(enriched list \<Rightarrow> int) \<Rightarrow> enriched list \<Rightarrow> string list \<times> (string \<times> int list) list" where
  "pivot_table agg df =
     (let rows = filter (\<lambda>r. Product_Name r \<noteq> None \<and> Platform r \<noteq> None) df;
          cols = group_keys Platform rows
      in (cols,
          map (\<lambda>i. (i, map (\<lambda>c. agg (filter (\<lambda>r. Product_Name r = Some i \<and> Platform r = Some c) rows)) cols))
            (group_keys Product_Name rows)))"

definition add_suffix :: "string \<Rightarrow> string list \<times> (string \<times> int list) list \<Rightarrow> string list \<times> (string \<times> int list) list" where
  "add_suffix sfx t = (map (\<lambda>c. c @ sfx) (fst t), snd t)"

text \<open>\<^verbatim>\<open>pd.concat([a, b], axis=1)\<close> of two tables over the same index.\<close>

definition concat_axis1 :: "string list \<times> (string \<times> int list) list \<Rightarrow> string list \<times> (string \<times> int list) list \<Rightarrow> string list \<times> (string \<times> int list) list" where
  "concat_axis1 a b = (fst a @ fst b, map2 (\<lambda>x y. (fst x, snd x @ snd y)) (snd a) (snd b))"

definition pivot_qty :: "enriched list \<Rightarrow> string list \<times> (string \<times> int list) list" where
  "pivot_qty table_df = add_suffix '' (Qty)'' (pivot_table sum_Qty table_df)"

definition pivot_sales :: "enriched list \<Rightarrow> string list \<times> (string \<times> int list) list" where
  "pivot_sales table_df = add_suffix '' (Sales)'' (pivot_table sum_Total_Sales table_df)"

definition pivot_combined :: "enriched list \<Rightarrow> string list \<times> (string \<times> int list) list" where
  "pivot_combined table_df = concat_axis1 (pivot_qty table_df) (pivot_sales table_df)"

definition sku_summary :: "enriched list \<Rightarrow> (string \<times> int \<times> int) list" where
  "sku_summary table_df = groupby_agg Product_Name table_df"

definition platform_summary :: "enriched list \<Rightarrow> (string \<times> int \<times> int) list" where
  "platform_summary table_df = groupby_agg Platform table_df"

definition brand_summary :: "enriched list \<Rightarrow> (string \<times> int \<times> int) list" where
  "brand_summary table_df = groupby_agg (\<lambda>r. Some (Brand r)) table_df"

definition time_sales :: "enriched list \<Rightarrow> (date \<times> int) list" where
  "time_sales table_df = groupby_sales Date table_df"

text \<open>\<^verbatim>\<open>strftime('%B %Y')\<close>.\<close>

definition month_name :: "nat \<Rightarrow> string" where
  "month_name m =
     (if m = 1 then ''January'' else if m = 2 then ''February'' else if m = 3 then ''March''
      else if m = 4 then ''April'' else if m = 5 then ''May'' else if m = 6 then ''June''
      else if m = 7 then ''July'' else if m = 8 then ''August'' else if m = 9 then ''September''
      else if m = 10 then ''October'' else if m = 11 then ''November'' else ''December'')"

fun strftime_B_Y :: "date \<Rightarrow> string" where
  "strftime_B_Y (y, m, d) = month_name m @ '' '' @ str_nat y"

definition Month_Name :: "enriched \<Rightarrow> string option" where
  "Month_Name r = map_option strftime_B_Y (Date r)"

text \<open>\<^verbatim>\<open>sort_values(by=...)\<close>: ascending in the key; rows with equal keys keep their order.\<close>

definition sort_values :: "('a \<Rightarrow> 'k::linorder) \<Rightarrow> 'a list \<Rightarrow> 'a list" where
  "sort_values by_key rows = sort_key by_key rows"

definition monthly_summary :: "enriched list \<Rightarrow> (string \<times> int \<times> int) list" where
  "monthly_summary table_df = sort_values fst (groupby_agg Month_Name table_df)"

text \<open>
  Day numbers as Python's \<^verbatim>\<open>toordinal\<close> (1 for 0001-01-01) and \<^verbatim>\<open>weekday\<close>
  (0 for Monday).
\<close>

definition days_before_year :: "nat \<Rightarrow> int" where
  "days_before_year y =
     (let y1 = int y - 1 in y1 * 365 + y1 div 4 - y1 div 100 + y1 div 400)"

definition days_before_month :: "nat \<Rightarrow> nat \<Rightarrow> int" where
  "days_before_month y m = int (sum_list (map (days_in_month y) [1..<m]))"

fun toordinal :: "date \<Rightarrow> int" where
  "toordinal (y, m, d) = days_before_year y + days_before_month y m + int d"

definition weekday :: "date \<Rightarrow> nat" where
  "weekday d = nat ((toordinal d + 6) mod 7)"

fun prev_day :: "date \<Rightarrow> date" where
  "prev_day (y, m, d) =
     (if d > 1 then (y, m, d - 1)
      else if m > 1 then (y, m - 1, days_in_month y (m - 1))
      else (y - 1, 12, 31))"

text \<open>
  \<^verbatim>\<open>to_period('W-MON')\<close> puts a day in the weekly period that ends on a Monday, and
  \<^verbatim>\<open>start_time\<close> is the first day of that period, six days before its end.
\<close>

definition Week_Start_of :: "date \<Rightarrow> date" where
  "Week_Start_of d = (prev_day ^^ ((weekday d + 6) mod 7)) d"

text \<open>\<^verbatim>\<open>isocalendar().week\<close>.\<close>

definition isoweek1monday :: "nat \<Rightarrow> int" where
  "isoweek1monday y =
     (let firstday = toordinal (y, 1, 1);
          firstweekday = (firstday + 6) mod 7;
          week1monday = firstday - firstweekday
      in if firstweekday > 3 then week1monday + 7 else week1monday)"

fun iso_week :: "date \<Rightarrow> nat" where
  "iso_week (y, m, d) =
     (let today = toordinal (y, m, d);
          week = (today - isoweek1monday y) div 7
      in if week < 0 then nat ((today - isoweek1monday (y - 1)) div 7 + 1)
         else if week \<ge> 52 \<and> today \<ge> isoweek1monday (y + 1) then 1
         else nat (week + 1))"

definition Week_Start :: "enriched \<Rightarrow> date option" where
  "Week_Start r = map_option Week_Start_of (Date r)"

definition Month_Week :: "enriched \<Rightarrow> string option" where
  "Month_Week r = map_option (\<lambda>d. strftime_B_Y d @ '' Week '' @ str_nat (iso_week d)) (Date r)"

text \<open>The key of \<^verbatim>\<open>groupby(['Month Week', 'Week Start'])\<close>: missing when either part is.\<close>

definition week_key :: "enriched \<Rightarrow> (string \<times> date) option" where
  "week_key r =
     (case Month_Week r of None \<Rightarrow> None
      | Some l \<Rightarrow> (case Week_Start r of None \<Rightarrow> None | Some w \<Rightarrow> Some (l, w)))"

text \<open>The weekly table with its \<open>Week Start\<close> column, and as displayed without it.\<close>

definition weekly_summary :: "enriched list \<Rightarrow> ((string \<times> date) \<times> int \<times> int) list" where
  "weekly_summary table_df = sort_values (\<lambda>row. snd (fst row)) (groupby_agg week_key table_df)"

definition weekly_shown :: "enriched list \<Rightarrow> (string \<times> int \<times> int) list" where
  "weekly_shown table_df = map (\<lambda>row. (fst (fst row), snd row)) (weekly_summary table_df)"

definition city_summary :: "enriched list \<Rightarrow> (string \<times> int \<times> int) list" where
  "city_summary table_df = groupby_agg (\<lambda>r. Some (City r)) table_df"

section \<open>The raw data and its export\<close>

text \<open>
  The column labels of the frames, in order: the sales columns, the columns that the merge
  selects from the product sheet (bar the key, the SKU column renamed), \<open>Total Sales\<close>; then
  the three columns that the monthly and weekly tables assign to \<open>table_df\<close>.
\<close>

definition sales_columns :: "string list" where
  "sales_columns = [''Date'', ''Item Id'', ''City'', ''Brand'', ''Qty'']"

definition merged_columns :: "string list" where
  "merged_columns =
     sales_columns @ [''Product Name'', ''Category Name'', ''Sub-Category Name'', ''Sale Price'', ''Platform'']
       @ [''Total Sales'']"

definition table_df_columns :: "string list" where
  "table_df_columns = merged_columns @ [''Month Name''] @ [''Week Start''] @ [''Month Week'']"

text \<open>The columns picked for the on-screen raw table.\<close>

definition raw_table_columns :: "string list" where
  "raw_table_columns =
     [''Date'', ''Item Id'', ''City'', ''Brand'', ''Qty'', ''Product Name'', ''Category Name'',
      ''Sub-Category Name'', ''Sale Price'', ''Platform'', ''Total Sales'']"

fun join_comma :: "string list \<Rightarrow> string" where
  "join_comma [] = []"
| "join_comma [c] = c"
| "join_comma (c # cs) = c @ '','' @ join_comma cs"

text \<open>
  The first line of \<^verbatim>\<open>table_df.to_csv(index=False)\<close>: the labels of all columns of the
  frame. (None of them needs quoting; all are ASCII, so the UTF-8 bytes are the characters.)
\<close>

definition csv_header :: "string list \<Rightarrow> string" where
  "csv_header columns = join_comma columns"

section \<open>main\<close>

record tables =
  t_pivot_combined :: "string list \<times> (string \<times> int list) list"
  t_sku_summary :: "(string \<times> int \<times> int) list"
  t_platform_summary :: "(string \<times> int \<times> int) list"
  t_brand_summary :: "(string \<times> int \<times> int) list"
  t_time_sales :: "(date \<times> int) list"
  t_monthly_summary :: "(string \<times> int \<times> int) list"
  t_weekly_summary :: "(string \<times> int \<times> int) list"
  t_city_summary :: "(string \<times> int \<times> int) list"
  t_csv_header :: "string option"

definition tables_of :: "enriched list \<Rightarrow> bool \<Rightarrow> tables" where
  "tables_of table_df raw =
     \<lparr>t_pivot_combined = pivot_combined table_df,
      t_sku_summary = sku_summary table_df,
      t_platform_summary = platform_summary table_df,
      t_brand_summary = brand_summary table_df,
      t_time_sales = time_sales table_df,
      t_monthly_summary = monthly_summary table_df,
      t_weekly_summary = weekly_shown table_df,
      t_city_summary = city_summary table_df,
      t_csv_header = (if raw then Some (csv_header table_df_columns) else None)\<rparr>"

text \<open>
  What the page ends with, once the sheets are loaded and processed into \<open>df\<close>: one of the
  messages after which \<open>main\<close> returns, or the rendered views. The indicators and the two
  charts are on the page before the platform selection is looked at. Reading the credentials,
  fetching the sheets and the widget calls are outside: what they give are the arguments.
\<close>

datatype outcome =
    Error_no_valid_data
  | Error_all_dates_invalid
  | Warning_select_dates
  | Warning_no_data_matches
  | Warning_no_platform_matches kpis "(string \<times> int) list" "(string \<times> int) list"
  | Dashboard kpis "(string \<times> int) list" "(string \<times> int) list" tables

definition main :: "enriched list \<Rightarrow> widgets \<Rightarrow> outcome" where
  "main df w =
     (if df = [] then Error_no_valid_data
      else if list_all (\<lambda>r. Date r = None) df then Error_all_dates_invalid
      else if length (date_range w) \<noteq> 2 then Warning_select_dates
      else
        let filtered_df = filter_data df (cities w) (categories w) (date_range w ! 0) (date_range w ! 1)
        in if filtered_df = [] then Warning_no_data_matches
           else
             let table_df = platform_filter filtered_df (platforms w)
             in if table_df = [] then
                  Warning_no_platform_matches (kpis_of filtered_df) (city_sales filtered_df)
                    (category_sales filtered_df)
                else
                  Dashboard (kpis_of filtered_df) (city_sales filtered_df) (category_sales filtered_df)
                    (tables_of table_df (show_raw w)))"

text \<open>The indicators and the tables of a page that shows them.\<close>

fun shown_kpis :: "outcome \<Rightarrow> kpis option" where
  "shown_kpis (Warning_no_platform_matches k c1 c2) = Some k"
| "shown_kpis (Dashboard k c1 c2 t) = Some k"
| "shown_kpis _ = None"

fun shown_tables :: "outcome \<Rightarrow> tables option" where
  "shown_tables (Dashboard k c1 c2 t) = Some t"
| "shown_tables _ = None"

section \<open>Inputs used in examples\<close>

text \<open>The columns of a merged row that come from the sales row, and from the catalog.\<close>

definition sales_cols :: "enriched \<Rightarrow> sales_rec" where
  "sales_cols r =
     \<lparr>n_Date = Date r, n_Item_Id = Item_Id r, n_City = City r, n_Brand = Brand r, n_Qty = Qty r\<rparr>"

definition catalog_cols :: "enriched \<Rightarrow> string option \<times> string option \<times> string option \<times> int option \<times> string option" where
  "catalog_cols r = (Product_Name r, Category_Name r, Sub_Category_Name r, Sale_Price r, Platform r)"

definition sales_s1 :: sales_row where
  "sales_s1 = \<lparr>s_Date = ''01-Jan-2025'', s_Item_Id = CStr ''5'', s_City = ''Pune'', s_Brand = ''Acme'',
     s_Qty = CStr ''3''\<rparr>"

definition catalog_s1 :: product_row where
  "catalog_s1 = \<lparr>p_Item_Id = CStr ''5'', p_SKU = ''Widget'', p_Category_Name = ''Home'',
     p_Sub_Category_Name = ''Decor'', p_Sale_Price = CStr ''10'', p_Platform = ''Amazon''\<rparr>"

definition sales_s2 :: sales_row where
  "sales_s2 = \<lparr>s_Date = ''31-13-2025'', s_Item_Id = CStr ''5'', s_City = ''Pune'', s_Brand = ''Acme'',
     s_Qty = CStr ''1''\<rparr>"


definition sales_s4 :: sales_row where
  "sales_s4 = \<lparr>s_Date = ''06-Jan-2025'', s_Item_Id = CInt 9, s_City = ''Delhi'', s_Brand = ''Acme'',
     s_Qty = CInt 2\<rparr>"

definition catalog_s4a :: product_row where
  "catalog_s4a = \<lparr>p_Item_Id = CStr ''9'', p_SKU = ''Lamp'', p_Category_Name = ''Home'',
     p_Sub_Category_Name = ''Light'', p_Sale_Price = CInt 7, p_Platform = ''Amazon''\<rparr>"

definition catalog_s4b :: product_row where
  "catalog_s4b = \<lparr>p_Item_Id = CInt 9, p_SKU = ''Lamp'', p_Category_Name = ''Home'',
     p_Sub_Category_Name = ''Light'', p_Sale_Price = CInt 8, p_Platform = ''Flipkart''\<rparr>"

definition sales_s6 :: sales_row where
  "sales_s6 = \<lparr>s_Date = ''06-Jan-2025'', s_Item_Id = CStr ''5'', s_City = ''Pune'', s_Brand = ''Acme'',
     s_Qty = CInt 1\<rparr>"

definition sales_s7 :: sales_row where
  "sales_s7 = \<lparr>s_Date = ''07-Jan-2025'', s_Item_Id = CStr ''5'', s_City = ''Pune'', s_Brand = ''Acme'',
     s_Qty = CInt 2\<rparr>"

definition sales_s8 :: sales_row where
  "sales_s8 = \<lparr>s_Date = ''15-Apr-2025'', s_Item_Id = CStr ''5'', s_City = ''Delhi'', s_Brand = ''Acme'',
     s_Qty = CInt 4\<rparr>"

definition sales_s9 :: sales_row where
  "sales_s9 = \<lparr>s_Date = ''02-Jan-2025'', s_Item_Id = CStr ''77'', s_City = ''Pune'', s_Brand = ''Acme'',
     s_Qty = CInt 6\<rparr>"

definition w_all :: widgets where
  "w_all = \<lparr>cities = [''Pune'', ''Delhi''], categories = [Some ''Home'', None],
     date_range = [(2025, 1, 1), (2025, 4, 30)],
     platforms = [Some ''Amazon'', Some ''Flipkart'', None], show_raw = True\<rparr>"

definition w_one_date :: widgets where
  "w_one_date = w_all\<lparr>date_range := [(2025, 1, 1)]\<rparr>"

definition w_s5 :: widgets where
  "w_s5 = w_all\<lparr>date_range := [(2025, 2, 1), (2025, 1, 1)]\<rparr>"

text \<open>Merged rows: those of the sales rows above against the catalog row \<open>catalog_s1\<close>.\<close>

definition row_s1 :: enriched where
  "row_s1 = \<lparr>Date = Some (2025, 1, 1), Item_Id = ''5'', City = ''Pune'', Brand = ''Acme'', Qty = Some 3,
     Product_Name = Some ''Widget'', Category_Name = Some ''Home'', Sub_Category_Name = Some ''Decor'',
     Sale_Price = Some 10, Platform = Some ''Amazon'', Total_Sales = 30\<rparr>"

definition row_s6 :: enriched where
  "row_s6 = \<lparr>Date = Some (2025, 1, 6), Item_Id = ''5'', City = ''Pune'', Brand = ''Acme'', Qty = Some 1,
     Product_Name = Some ''Widget'', Category_Name = Some ''Home'', Sub_Category_Name = Some ''Decor'',
     Sale_Price = Some 10, Platform = Some ''Amazon'', Total_Sales = 10\<rparr>"

definition row_s7 :: enriched where
  "row_s7 = \<lparr>Date = Some (2025, 1, 7), Item_Id = ''5'', City = ''Pune'', Brand = ''Acme'', Qty = Some 2,
     Product_Name = Some ''Widget'', Category_Name = Some ''Home'', Sub_Category_Name = Some ''Decor'',
     Sale_Price = Some 10, Platform = Some ''Amazon'', Total_Sales = 20\<rparr>"

definition row_s8 :: enriched where
  "row_s8 = \<lparr>Date = Some (2025, 4, 15), Item_Id = ''5'', City = ''Delhi'', Brand = ''Acme'', Qty = Some 4,
     Product_Name = Some ''Widget'', Category_Name = Some ''Home'', Sub_Category_Name = Some ''Decor'',
     Sale_Price = Some 10, Platform = Some ''Amazon'', Total_Sales = 40\<rparr>"

definition row_s9 :: enriched where
  "row_s9 = \<lparr>Date = Some (2025, 1, 2), Item_Id = ''77'', City = ''Pune'', Brand = ''Acme'', Qty = Some 6,
     Product_Name = None, Category_Name = None, Sub_Category_Name = None,
     Sale_Price = None, Platform = None, Total_Sales = 0\<rparr>"

section \<open>Properties of process\_data\<close>

lemma process_data_concat:
  "process_data sales_dfs product_df =
     concat (map (merge_row (map coerce_product product_df))
       (dropna_Date (map coerce_sales (concat sales_dfs))))"
  by (simp add: process_data_def Let_def merge_left_def)

lemma sales_cols_join: "sales_cols (join s po) = s"
  by (cases po) (simp_all add: sales_cols_def)

lemma total_join:
  "Total_Sales (join s po) =
     (case (Qty (join s po), Sale_Price (join s po)) of (Some q, Some p) \<Rightarrow> q * p | _ \<Rightarrow> 0)"
  by (cases po; cases "n_Qty s"; simp split: option.splits)

lemma in_merge_row:
  "r \<in> set (merge_row cat s) \<Longrightarrow>
     (matches cat s = [] \<and> r = join s None) \<or> (\<exists>p \<in> set (matches cat s). r = join s (Some p))"
  by (auto simp: merge_row_def simp del: join.simps split: if_splits)

lemma in_process_data:
  "r \<in> set (process_data S P) \<Longrightarrow>
     \<exists>s \<in> set (dropna_Date (map coerce_sales (concat S))).
       (matches (map coerce_product P) s = [] \<and> r = join s None) \<or>
       (\<exists>p \<in> set (matches (map coerce_product P) s). r = join s (Some p))"
  unfolding process_data_concat using in_merge_row by fastforce

lemma matches_ids:
  "p \<in> set (matches (map coerce_product P) s) \<Longrightarrow>
     n_Item_Id s \<in> set (map (\<lambda>p. astype_str (p_Item_Id p)) P)"
  by (force simp: matches_def coerce_product_def)

lemma eval_s1:
  "process_data [[sales_s1]] [catalog_s1] =
     [\<lparr>Date = Some (2025, 1, 1), Item_Id = ''5'', City = ''Pune'', Brand = ''Acme'',
       Qty = Some 3, Product_Name = Some ''Widget'', Category_Name = Some ''Home'',
       Sub_Category_Name = Some ''Decor'', Sale_Price = Some 10, Platform = Some ''Amazon'',
       Total_Sales = 30\<rparr>]"
  by code_simp











lemma length_merge_row:
  "length (merge_row cat r) = (if matches cat r = [] then 1 else length (matches cat r))"
  by (simp add: merge_row_def)

lemma sales_cols_merge_row:
  "map sales_cols (merge_row cat r) = replicate (length (merge_row cat r)) r"
  by (simp add: merge_row_def sales_cols_join map_replicate_const comp_def del: join.simps)

lemma catalog_cols_merge_row:
  "map catalog_cols (merge_row cat r) =
     (if matches cat r = [] then [(None, None, None, None, None)]
      else map (\<lambda>p. (Some (c_SKU p), Some (c_Category_Name p), Some (c_Sub_Category_Name p),
                      c_Sale_Price p, Some (c_Platform p))) (matches cat r))"
  by (simp add: merge_row_def catalog_cols_def comp_def)

lemma matches_coerced:
  "matches (map coerce_product product_df) (coerce_sales s) =
     map coerce_product (filter (\<lambda>p. astype_str (p_Item_Id p) = astype_str (s_Item_Id s)) product_df)"
  by (simp add: matches_def filter_map comp_def coerce_product_def coerce_sales_def)

lemma length_concat_ge:
  "(\<And>x. x \<in> set xs \<Longrightarrow> 1 \<le> length (f x)) \<Longrightarrow> length xs \<le> length (concat (map f xs))"
proof (induction xs)
  case Nil
  then show ?case by simp
next
  case (Cons a xs)
  then have "1 \<le> length (f a)" "length xs \<le> length (concat (map f xs))" by simp_all
  then show ?case by simp
qed

lemma eval_s4:
  "map (\<lambda>r. (Item_Id r, Sale_Price r, Platform r, Total_Sales r))
       (process_data [[sales_s4]] [catalog_s4a, catalog_s4b]) =
     [(''9'', Some 7, Some ''Amazon'', 14), (''9'', Some 8, Some ''Flipkart'', 16)]"
  by code_simp

text \<open>
  C2. The merge is a left join on the item ids as texts. The returned rows are, for each
  sales row with a valid date in order, the rows of that sales row: one per catalog row whose
  id, as text, equals its own, each with the sales columns unchanged and that catalog row's
  columns; or a single row with all catalog columns missing when no catalog row matches. So
  there are at least as many returned rows as sales rows with a valid date. A sales row with
  the number 9, against a catalog with the ids "9" and 9, gives two rows.
\<close>

theorem left_join_fan_out:
  "process_data sales_dfs product_df =
     concat (map (merge_row (map coerce_product product_df))
       (dropna_Date (map coerce_sales (concat sales_dfs))))
   \<and> matches (map coerce_product product_df) (coerce_sales s) =
       map coerce_product
         (filter (\<lambda>p. astype_str (p_Item_Id p) = astype_str (s_Item_Id s)) product_df)
   \<and> length (merge_row cat r) = (if matches cat r = [] then 1 else length (matches cat r))
   \<and> map sales_cols (merge_row cat r) = replicate (length (merge_row cat r)) r
   \<and> map catalog_cols (merge_row cat r) =
       (if matches cat r = [] then [(None, None, None, None, None)]
        else map (\<lambda>p. (Some (c_SKU p), Some (c_Category_Name p), Some (c_Sub_Category_Name p),
                        c_Sale_Price p, Some (c_Platform p))) (matches cat r))
   \<and> length (dropna_Date (map coerce_sales (concat sales_dfs)))
       \<le> length (process_data sales_dfs product_df)
   \<and> map (\<lambda>r. (Item_Id r, Sale_Price r, Platform r, Total_Sales r))
         (process_data [[sales_s4]] [catalog_s4a, catalog_s4b]) =
       [(''9'', Some 7, Some ''Amazon'', 14), (''9'', Some 8, Some ''Flipkart'', 16)]"
proof -
  have "length (dropna_Date (map coerce_sales (concat sales_dfs)))
          \<le> length (process_data sales_dfs product_df)"
    unfolding process_data_concat
    by (rule length_concat_ge) (simp add: length_merge_row Suc_le_eq)
  then show ?thesis
    using process_data_concat matches_coerced length_merge_row sales_cols_merge_row
      catalog_cols_merge_row eval_s4
    by blast
qed

lemma set_merge_row_sales: "sales_cols ` set (merge_row cat r) = {r}"
proof -
  have "set (map sales_cols (merge_row cat r)) = {r}"
    unfolding sales_cols_merge_row by (simp add: length_merge_row)
  then show ?thesis by simp
qed

lemma sales_cols_process_data:
  "sales_cols ` set (process_data sales_dfs product_df) =
     set (dropna_Date (map coerce_sales (concat sales_dfs)))"
  unfolding process_data_concat by (simp add: image_UN set_merge_row_sales)

lemma stdout_eq:
  "process_data_stdout sales_dfs product_df =
     (if 0 < length (filter (\<lambda>s. to_datetime (s_Date s) = None) (concat sales_dfs))
      then [Found_NaT (length (filter (\<lambda>s. to_datetime (s_Date s) = None) (concat sales_dfs)))]
      else [])
     @ (if filter (\<lambda>s. to_datetime (s_Date s) \<noteq> None) (concat sales_dfs) = []
        then [All_rows_dropped] else [])"
  by (simp add: process_data_stdout_def Let_def nat_count_def dropna_Date_def filter_map comp_def
      coerce_sales_def)

lemma eval_dates:
  "map to_datetime [''01-Jan-2025'', ''1-jan-2025'', ''31-13-2025'', ''29-Feb-2025'', ''2025-01-01''] =
     [Some (2025, 1, 1), Some (2025, 1, 1), None, None, None]"
  by code_simp

text \<open>
  C3 (as amended). The sales columns of the returned rows are those of exactly the input rows
  whose \<open>Date\<close> text the format \<^verbatim>\<open>%d-%b-%Y\<close> parses (which also reads a one-digit day and
  a month abbreviation in any letter case); every other row is left out, and nothing is
  raised. The number of rejected rows is printed on standard output when it is positive; it
  is not part of what is returned.
\<close>

theorem unparseable_dates_dropped:
  "sales_cols ` set (process_data sales_dfs product_df) =
     {r \<in> coerce_sales ` set (concat sales_dfs). n_Date r \<noteq> None}
   \<and> n_Date (coerce_sales s) = to_datetime (s_Date s)
   \<and> map to_datetime [''01-Jan-2025'', ''1-jan-2025'', ''31-13-2025'', ''29-Feb-2025'', ''2025-01-01''] =
       [Some (2025, 1, 1), Some (2025, 1, 1), None, None, None]
   \<and> process_data_stdout sales_dfs product_df =
       (if 0 < length (filter (\<lambda>s. to_datetime (s_Date s) = None) (concat sales_dfs))
        then [Found_NaT (length (filter (\<lambda>s. to_datetime (s_Date s) = None) (concat sales_dfs)))]
        else [])
       @ (if filter (\<lambda>s. to_datetime (s_Date s) \<noteq> None) (concat sales_dfs) = []
          then [All_rows_dropped] else [])"
proof -
  have "sales_cols ` set (process_data sales_dfs product_df) =
     {r \<in> coerce_sales ` set (concat sales_dfs). n_Date r \<noteq> None}"
    unfolding sales_cols_process_data by (auto simp: dropna_Date_def)
  moreover have "n_Date (coerce_sales s) = to_datetime (s_Date s)"
    by (simp add: coerce_sales_def)
  ultimately show ?thesis using eval_dates stdout_eq by blast
qed

text \<open>
  The claim as written fails: two batches with different numbers of rejected rows give the
  caller the same value.
\<close>

theorem reject_count_not_returned:
  "process_data [[sales_s1]] [catalog_s1] = process_data [[sales_s1, sales_s2]] [catalog_s1]
   \<and> nat_count (map coerce_sales (concat [[sales_s1]])) = 0
   \<and> nat_count (map coerce_sales (concat [[sales_s1, sales_s2]])) = 1"
  by code_simp

section \<open>Properties of the filters\<close>

lemma mask_and_map: "mask_and (map P df) (map Q df) = map (\<lambda>r. P r \<and> Q r) df"
  by (induction df) (simp_all add: mask_and_def)

lemma select_rows_map: "select_rows df (map P df) = filter P df"
  by (induction df) (simp_all add: select_rows_def)

lemma kept_labels_map: "kept_labels (map P df) = {i. i < length df \<and> P (df ! i)}"
  by (auto simp: kept_labels_def)

lemma kept_labels_mask_and:
  "kept_labels (mask_and (map P df) (map Q df)) = kept_labels (map P df) \<inter> kept_labels (map Q df)"
  by (auto simp: mask_and_map kept_labels_map)

lemma filter_by_labels:
  "filter P df = map ((!) df) (sorted_list_of_set (kept_labels (map P df)))"
proof -
  let ?is = "filter (\<lambda>i. P (df ! i)) [0..<length df]"
  have "sorted_list_of_set (set ?is) = ?is"
    by (intro sorted_list_of_set.idem_if_sorted_distinct) (simp_all add: sorted_wrt_filter)
  moreover have "kept_labels (map P df) = set ?is"
    by (auto simp: kept_labels_def)
  moreover have "map ((!) df) ?is = filter P (map ((!) df) [0..<length df])"
    by (simp add: filter_map comp_def)
  ultimately show ?thesis by (simp add: map_nth)
qed

lemma filter_data_filter:
  "filter_data df cs cats d0 d1 =
     filter (\<lambda>r. ((City r \<in> set cs \<and> Category_Name r \<in> set cats) \<and> date_ge (Date r) d0)
                  \<and> date_le (Date r) d1) df"
  by (simp add: filter_data_def isin_def mask_and_map select_rows_map)

lemma platform_filter_filter:
  "platform_filter filtered_df ps = filter (\<lambda>r. Platform r \<in> set ps) filtered_df"
  by (simp add: platform_filter_def isin_def select_rows_map)

text \<open>
  C4. The first filter keeps exactly the rows whose city is selected, whose category is
  selected and whose date lies between the two bounds, both included. The row labels it
  keeps are the intersection of the labels that each of the four masks keeps on its own, and
  its rows are the rows at these labels in order. The platform selection is a second filter,
  over the rows the first one kept.
\<close>

theorem filter_conjunction:
  "filter_data df cs cats d0 d1 =
     filter (\<lambda>r. City r \<in> set cs \<and> Category_Name r \<in> set cats
                  \<and> date_ge (Date r) d0 \<and> date_le (Date r) d1) df
   \<and> filter_data df cs cats d0 d1 =
       map ((!) df) (sorted_list_of_set
         (kept_labels (isin City cs df) \<inter> kept_labels (isin Category_Name cats df)
            \<inter> kept_labels (map (\<lambda>r. date_ge (Date r) d0) df)
            \<inter> kept_labels (map (\<lambda>r. date_le (Date r) d1) df)))
   \<and> select_rows df (map P df) = map ((!) df) (sorted_list_of_set (kept_labels (map P df)))
   \<and> (date_ge (Some d) d0 \<and> date_le (Some d) d1) = (d0 \<le> d \<and> d \<le> d1)
   \<and> platform_filter (filter_data df cs cats d0 d1) ps =
       filter (\<lambda>r. Platform r \<in> set ps) (filter_data df cs cats d0 d1)
   \<and> main df (w\<lparr>date_range := [d0, d1]\<rparr>) =
       (if df = [] then Error_no_valid_data
        else if list_all (\<lambda>r. Date r = None) df then Error_all_dates_invalid
        else if filter_data df (cities w) (categories w) d0 d1 = [] then Warning_no_data_matches
        else if platform_filter (filter_data df (cities w) (categories w) d0 d1) (platforms w) = []
          then Warning_no_platform_matches
                 (kpis_of (filter_data df (cities w) (categories w) d0 d1))
                 (city_sales (filter_data df (cities w) (categories w) d0 d1))
                 (category_sales (filter_data df (cities w) (categories w) d0 d1))
        else Dashboard
               (kpis_of (filter_data df (cities w) (categories w) d0 d1))
               (city_sales (filter_data df (cities w) (categories w) d0 d1))
               (category_sales (filter_data df (cities w) (categories w) d0 d1))
               (tables_of
                 (platform_filter (filter_data df (cities w) (categories w) d0 d1) (platforms w))
                 (show_raw w)))"
proof (intro conjI)
  show "filter_data df cs cats d0 d1 =
     filter (\<lambda>r. City r \<in> set cs \<and> Category_Name r \<in> set cats
                  \<and> date_ge (Date r) d0 \<and> date_le (Date r) d1) df"
    by (simp add: filter_data_filter conj_assoc)
  have "kept_labels (isin City cs df) \<inter> kept_labels (isin Category_Name cats df)
            \<inter> kept_labels (map (\<lambda>r. date_ge (Date r) d0) df)
            \<inter> kept_labels (map (\<lambda>r. date_le (Date r) d1) df) =
        kept_labels (map (\<lambda>r. ((City r \<in> set cs \<and> Category_Name r \<in> set cats) \<and> date_ge (Date r) d0)
                  \<and> date_le (Date r) d1) df)"
    by (auto simp: isin_def kept_labels_map)
  then show "filter_data df cs cats d0 d1 =
       map ((!) df) (sorted_list_of_set
         (kept_labels (isin City cs df) \<inter> kept_labels (isin Category_Name cats df)
            \<inter> kept_labels (map (\<lambda>r. date_ge (Date r) d0) df)
            \<inter> kept_labels (map (\<lambda>r. date_le (Date r) d1) df)))"
    by (simp only: filter_data_filter filter_by_labels [symmetric])
  show "select_rows df (map P df) = map ((!) df) (sorted_list_of_set (kept_labels (map P df)))"
    by (simp only: select_rows_map filter_by_labels [symmetric])
  show "(date_ge (Some d) d0 \<and> date_le (Some d) d1) = (d0 \<le> d \<and> d \<le> d1)"
    by simp
  show "platform_filter (filter_data df cs cats d0 d1) ps =
       filter (\<lambda>r. Platform r \<in> set ps) (filter_data df cs cats d0 d1)"
    by (rule platform_filter_filter)
  show "main df (w\<lparr>date_range := [d0, d1]\<rparr>) =
       (if df = [] then Error_no_valid_data
        else if list_all (\<lambda>r. Date r = None) df then Error_all_dates_invalid
        else if filter_data df (cities w) (categories w) d0 d1 = [] then Warning_no_data_matches
        else if platform_filter (filter_data df (cities w) (categories w) d0 d1) (platforms w) = []
          then Warning_no_platform_matches
                 (kpis_of (filter_data df (cities w) (categories w) d0 d1))
                 (city_sales (filter_data df (cities w) (categories w) d0 d1))
                 (category_sales (filter_data df (cities w) (categories w) d0 d1))
        else Dashboard
               (kpis_of (filter_data df (cities w) (categories w) d0 d1))
               (city_sales (filter_data df (cities w) (categories w) d0 d1))
               (category_sales (filter_data df (cities w) (categories w) d0 d1))
               (tables_of
                 (platform_filter (filter_data df (cities w) (categories w) d0 d1) (platforms w))
                 (show_raw w)))"
    by (simp add: main_def Let_def)
qed

lemma filter_data_reversed: "d1 < d0 \<Longrightarrow> filter_data df cs cats d0 d1 = []"
proof -
  assume lt: "d1 < d0"
  have "\<not> (date_ge x d0 \<and> date_le x d1)" for x
    using lt by (cases x) auto
  then show ?thesis by (simp add: filter_data_filter)
qed

lemma eval_main_one_date:
  "main (process_data [[sales_s1]] [catalog_s1]) w_one_date = Warning_select_dates"
  by (simp add: eval_s1 main_def w_one_date_def w_all_def)

text \<open>
  C5 (as amended). When the date range does not hold exactly two dates, the page stops with
  the warning to select a start and an end date, before any filtering. A range whose end is
  before its start is not rejected: the filter runs over all rows, keeps none, and the page
  stops with the warning that no data matches the filters.
\<close>

theorem date_range_validation:
  "(df \<noteq> [] \<and> \<not> list_all (\<lambda>r. Date r = None) df \<and> length (date_range w) \<noteq> 2
      \<longrightarrow> main df w = Warning_select_dates)
   \<and> (df \<noteq> [] \<and> \<not> list_all (\<lambda>r. Date r = None) df \<and> date_range w = [d0, d1] \<and> d1 < d0
      \<longrightarrow> filter_data df (cities w) (categories w) d0 d1 = [] \<and> main df w = Warning_no_data_matches)"
  by (auto simp: main_def Let_def filter_data_reversed)

theorem date_range_validation_witness:
  "length (date_range w_one_date) = 1
   \<and> main (process_data [[sales_s1]] [catalog_s1]) w_one_date = Warning_select_dates
   \<and> date_range w_s5 = [(2025, 2, 1), (2025, 1, 1)]
   \<and> main (process_data [[sales_s1]] [catalog_s1]) w_s5 = Warning_no_data_matches"
  using date_range_validation [of "process_data [[sales_s1]] [catalog_s1]" w_one_date]
    date_range_validation [of "process_data [[sales_s1]] [catalog_s1]" w_s5 "(2025, 2, 1)" "(2025, 1, 1)"]
  by (simp add: eval_s1 w_one_date_def w_s5_def w_all_def)

text \<open>
  The claim as written fails: with the end 2025-01-01 before the start 2025-02-01 the page
  does not give the date warning but the outcome of an empty filter result.
\<close>

theorem reversed_range_not_rejected:
  "main (process_data [[sales_s1]] [catalog_s1]) w_s5 = Warning_no_data_matches
   \<and> main (process_data [[sales_s1]] [catalog_s1]) w_s5 \<noteq> Warning_select_dates"
  by (simp add: eval_s1 main_def w_s5_def w_all_def filter_data_filter)

section \<open>Properties of the aggregation\<close>

lemma set_group_keys: "set (group_keys key df) = {k. \<exists>r \<in> set df. key r = Some k}"
  by (force simp: group_keys_def map_filter_def)

lemma distinct_group_keys: "distinct (group_keys key df)"
  by (simp add: group_keys_def)

lemma sorted_group_keys: "sorted (group_keys key df)"
  by (simp add: group_keys_def)

lemma group_keys_filter: "group_keys key (filter (\<lambda>r. key r \<noteq> None) df) = group_keys key df"
proof -
  have "List.map_filter key (filter (\<lambda>r. key r \<noteq> None) df) = List.map_filter key df"
    by (induction df) (auto simp: map_filter_simps)
  then show ?thesis by (simp add: group_keys_def)
qed

lemma group_rows_filter: "group_rows key (filter (\<lambda>r. key r \<noteq> None) df) k = group_rows key df k"
proof -
  have "(key r = Some k \<and> key r \<noteq> None) = (key r = Some k)" for r by auto
  then show ?thesis by (simp add: group_rows_def conj_commute)
qed

lemma groupby_agg_filter: "groupby_agg key (filter (\<lambda>r. key r \<noteq> None) df) = groupby_agg key df"
  by (simp only: groupby_agg_def group_keys_filter group_rows_filter)

lemma groupby_sales_filter: "groupby_sales key (filter (\<lambda>r. key r \<noteq> None) df) = groupby_sales key df"
  by (simp only: groupby_sales_def group_keys_filter group_rows_filter)

lemma sum_over_groups:
  "finite K \<Longrightarrow> (\<And>r k. r \<in> set df \<Longrightarrow> key r = Some k \<Longrightarrow> k \<in> K) \<Longrightarrow>
     (\<Sum>k \<in> K. sum_list (map f (group_rows key df k))) =
       sum_list (map (f :: 'r \<Rightarrow> int) (filter (\<lambda>r. key r \<noteq> None) df))"
proof (induction df)
  case Nil
  then show ?case by (simp add: group_rows_def)
next
  case (Cons a df)
  have IH: "(\<Sum>k \<in> K. sum_list (map f (group_rows key df k))) =
       sum_list (map f (filter (\<lambda>r. key r \<noteq> None) df))"
    by (rule Cons.IH) (use Cons.prems in auto)
  show ?case
  proof (cases "key a")
    case None
    then have "group_rows key (a # df) k = group_rows key df k" for k
      by (simp add: group_rows_def)
    with None IH show ?thesis by simp
  next
    case (Some k0)
    have k0: "k0 \<in> K" using Cons.prems(2) [of a k0] Some by simp
    have "sum_list (map f (group_rows key (a # df) k)) =
            (if k0 = k then f a else 0) + sum_list (map f (group_rows key df k))" for k
      using Some by (simp add: group_rows_def)
    then have "(\<Sum>k \<in> K. sum_list (map f (group_rows key (a # df) k))) =
            (\<Sum>k \<in> K. if k0 = k then f a else 0) + (\<Sum>k \<in> K. sum_list (map f (group_rows key df k)))"
      by (simp add: sum.distrib)
    also have "(\<Sum>k \<in> K. if k0 = k then f a else 0) = f a"
      using Cons.prems(1) k0 by simp
    finally show ?thesis using Some IH by simp
  qed
qed

lemma sum_groups_list:
  "distinct ks \<Longrightarrow> (\<And>r k. r \<in> set df \<Longrightarrow> key r = Some k \<Longrightarrow> k \<in> set ks) \<Longrightarrow>
     sum_list (map (\<lambda>k. sum_list (map f (group_rows key df k))) ks) =
       sum_list (map (f :: 'r \<Rightarrow> int) (filter (\<lambda>r. key r \<noteq> None) df))"
  using sum_over_groups [of "set ks" df key f] by (simp add: sum_list_distinct_conv_sum_set)

lemma sum_groups:
  "sum_list (map (\<lambda>k. sum_list (map f (group_rows key df k))) (group_keys key df)) =
     sum_list (map (f :: 'r \<Rightarrow> int) (filter (\<lambda>r. key r \<noteq> None) df))"
  by (rule sum_groups_list) (auto simp: distinct_group_keys set_group_keys)

lemma sum_keyed_rows:
  "(\<And>r. r \<in> set df \<Longrightarrow> key r = None \<Longrightarrow> f r = 0) \<Longrightarrow>
     sum_list (map f (filter (\<lambda>r. key r \<noteq> None) df)) = sum_list (map (f :: 'r \<Rightarrow> int) df)"
  by (induction df) auto

lemma groupby_agg_qty_total:
  "(\<And>r. r \<in> set df \<Longrightarrow> key r \<noteq> None) \<Longrightarrow>
     sum_list (map (\<lambda>row. fst (snd row)) (groupby_agg key df)) = sum_Qty df"
  using sum_groups [of "\<lambda>r. fillna0 (Qty r)" key df] sum_keyed_rows [of df key "\<lambda>r. fillna0 (Qty r)"]
  by (simp add: groupby_agg_def sum_Qty_def comp_def)

lemma sum_list_insort_key:
  "sum_list (map f (insort_key k x xs)) = (f x :: int) + sum_list (map f xs)"
  by (induction xs) simp_all

lemma sum_list_sort_values: "sum_list (map f (sort_values k xs)) = (sum_list (map f xs) :: int)"
  unfolding sort_values_def by (induction xs) (simp_all add: sum_list_insort_key)

lemma week_key_None: "week_key r = None \<longleftrightarrow> Date r = None"
  by (simp add: week_key_def Month_Week_def Week_Start_def split: option.splits)

lemma Month_Name_None: "Month_Name r = None \<longleftrightarrow> Date r = None"
  by (simp add: Month_Name_def)

section \<open>Rows without a catalog match\<close>

lemma pivot_table_filter:
  "pivot_table agg (filter (\<lambda>r. Product_Name r \<noteq> None) df) = pivot_table agg df"
proof -
  have "filter (\<lambda>r. Product_Name r \<noteq> None \<and> Platform r \<noteq> None) (filter (\<lambda>r. Product_Name r \<noteq> None) df) =
        filter (\<lambda>r. Product_Name r \<noteq> None \<and> Platform r \<noteq> None) df"
    by (induction df) auto
  then show ?thesis unfolding pivot_table_def by (simp only:)
qed

lemma pivot_combined_filter:
  "pivot_combined (filter (\<lambda>r. Product_Name r \<noteq> None) df) = pivot_combined df"
  by (simp only: pivot_combined_def pivot_qty_def pivot_sales_def pivot_table_filter)

lemma groupby_agg_qty_keyed:
  "sum_list (map (\<lambda>row. fst (snd row)) (groupby_agg key df)) = sum_Qty (filter (\<lambda>r. key r \<noteq> None) df)"
  using sum_groups [of "\<lambda>r. fillna0 (Qty r)" key df]
  by (simp add: groupby_agg_def sum_Qty_def comp_def del: not_None_eq)

lemma unmatched_null:
  assumes "r \<in> set (process_data sales_dfs product_df)"
    and "Item_Id r \<notin> set (map (\<lambda>p. astype_str (p_Item_Id p)) product_df)"
  shows "catalog_cols r = (None, None, None, None, None)"
proof -
  from assms(1) obtain s where
    j: "(matches (map coerce_product product_df) s = [] \<and> r = join s None) \<or>
        (\<exists>p \<in> set (matches (map coerce_product product_df) s). r = join s (Some p))"
    using in_process_data by blast
  then obtain po where r': "r = join s po" by blast
  have "Item_Id r = n_Item_Id s" unfolding r' by (cases po) simp_all
  with assms(2) j matches_ids have "r = join s None" by metis
  then show ?thesis by (simp add: catalog_cols_def)
qed

lemma eval_unmatched:
  "map catalog_cols (process_data [[sales_s9]] [catalog_s1]) = [(None, None, None, None, None)]
   \<and> map Item_Id (process_data [[sales_s9]] [catalog_s1]) = [''77'']
   \<and> map (\<lambda>p. astype_str (p_Item_Id p)) [catalog_s1] = [''5'']"
  by code_simp

lemma eval_example:
  "process_data [[sales_s1, sales_s9, sales_s8]] [catalog_s1] = [row_s1, row_s9, row_s8]"
  by code_simp

lemma eval_filter_example:
  "filter_data [row_s1, row_s9, row_s8] (cities w_all) (categories w_all)
       (date_range w_all ! 0) (date_range w_all ! 1) =
     [row_s1, row_s9, row_s8]"
  by code_simp

lemma eval_platform_example:
  "platform_filter [row_s1, row_s9, row_s8] (platforms w_all) = [row_s1, row_s9, row_s8]"
  by code_simp

lemma w_all_fields: "length (date_range w_all) = 2" "show_raw w_all = True"
  by (simp_all add: w_all_def)

lemma dated_example: "\<not> list_all (\<lambda>r. Date r = None) [row_s1, row_s9, row_s8]"
  by (simp add: row_s1_def)

lemma main_example:
  "main (process_data [[sales_s1, sales_s9, sales_s8]] [catalog_s1]) w_all =
     Dashboard (kpis_of [row_s1, row_s9, row_s8]) (city_sales [row_s1, row_s9, row_s8])
       (category_sales [row_s1, row_s9, row_s8]) (tables_of [row_s1, row_s9, row_s8] True)"
proof -
  have ne: "[row_s1, row_s9, row_s8] \<noteq> []" by simp
  show ?thesis
    unfolding main_def Let_def eval_example
    by (simp only: ne dated_example w_all_fields eval_filter_example eval_platform_example
        if_False if_True simp_thms)
qed

lemma eval_views_example:
  "sum_Qty [row_s1, row_s9, row_s8] = 13"
  "platform_summary [row_s1, row_s9, row_s8] = [(''Amazon'', 7, 70)]"
  "city_summary [row_s1, row_s9, row_s8] = [(''Delhi'', 4, 40), (''Pune'', 9, 30)]"
  "brand_summary [row_s1, row_s9, row_s8] = [(''Acme'', 13, 70)]"
  by code_simp+

text \<open>
  C10 (as amended). A returned row whose item id is in no catalog row has no \<open>Product Name\<close>,
  \<open>Category Name\<close> and \<open>Platform\<close> (the three come from the catalog). Rows without the key
  leave the views keyed on a catalog column as they are without them: by category, by product
  name, the product and platform matrix, and by platform. They count in the indicators (number
  of orders, total quantity), and in the tables by city and by brand, whose quantities add
  up to the quantity of all rows; the tables by month and week and the daily series have
  a group for the date of every row that has one.
\<close>

theorem unmatched_rows_in_views:
  "(\<forall>r \<in> set (process_data sales_dfs product_df).
      Item_Id r \<notin> set (map (\<lambda>p. astype_str (p_Item_Id p)) product_df)
        \<longrightarrow> Product_Name r = None \<and> Category_Name r = None \<and> Platform r = None)
   \<and> category_sales (filter (\<lambda>r. Category_Name r \<noteq> None) df) = category_sales df
   \<and> sku_summary (filter (\<lambda>r. Product_Name r \<noteq> None) df) = sku_summary df
   \<and> pivot_combined (filter (\<lambda>r. Product_Name r \<noteq> None) df) = pivot_combined df
   \<and> platform_summary (filter (\<lambda>r. Platform r \<noteq> None) df) = platform_summary df
   \<and> total_orders (kpis_of df) = length df
   \<and> total_qty (kpis_of df) = sum_list (map (\<lambda>r. fillna0 (Qty r)) df)
   \<and> sum_list (map (\<lambda>row. fst (snd row)) (city_summary df)) = total_qty (kpis_of df)
   \<and> sum_list (map (\<lambda>row. fst (snd row)) (brand_summary df)) = total_qty (kpis_of df)
   \<and> sum_list (map (\<lambda>row. fst (snd row)) (monthly_summary df)) = sum_Qty (filter (\<lambda>r. Date r \<noteq> None) df)
   \<and> sum_list (map (\<lambda>row. fst (snd row)) (weekly_shown df)) = sum_Qty (filter (\<lambda>r. Date r \<noteq> None) df)
   \<and> set (map fst (time_sales df)) = {d. \<exists>r \<in> set df. Date r = Some d}"
proof -
  have a: "\<forall>r \<in> set (process_data sales_dfs product_df).
      Item_Id r \<notin> set (map (\<lambda>p. astype_str (p_Item_Id p)) product_df)
        \<longrightarrow> Product_Name r = None \<and> Category_Name r = None \<and> Platform r = None"
    using unmatched_null [of _ sales_dfs product_df] by (simp add: catalog_cols_def)
  have b: "category_sales (filter (\<lambda>r. Category_Name r \<noteq> None) df) = category_sales df"
    by (simp only: category_sales_def groupby_sales_filter)
  have c: "sku_summary (filter (\<lambda>r. Product_Name r \<noteq> None) df) = sku_summary df"
    by (simp only: sku_summary_def groupby_agg_filter)
  have d: "platform_summary (filter (\<lambda>r. Platform r \<noteq> None) df) = platform_summary df"
    by (simp only: platform_summary_def groupby_agg_filter)
  have e: "total_orders (kpis_of df) = length df"
    "total_qty (kpis_of df) = sum_list (map (\<lambda>r. fillna0 (Qty r)) df)"
    by (simp_all add: kpis_of_def sum_Qty_def)
  have q: "total_qty (kpis_of df) = sum_Qty df" by (simp add: kpis_of_def)
  have f: "sum_list (map (\<lambda>row. fst (snd row)) (city_summary df)) = total_qty (kpis_of df)"
    unfolding q city_summary_def by (rule groupby_agg_qty_total) simp
  have g: "sum_list (map (\<lambda>row. fst (snd row)) (brand_summary df)) = total_qty (kpis_of df)"
    unfolding q brand_summary_def by (rule groupby_agg_qty_total) simp
  have mn: "(\<lambda>r. Month_Name r \<noteq> None) = (\<lambda>r. Date r \<noteq> None)"
    by (simp add: Month_Name_None del: not_None_eq)
  have wk: "(\<lambda>r. week_key r \<noteq> None) = (\<lambda>r. Date r \<noteq> None)"
    by (simp add: week_key_None del: not_None_eq)
  have h: "sum_list (map (\<lambda>row. fst (snd row)) (monthly_summary df)) = sum_Qty (filter (\<lambda>r. Date r \<noteq> None) df)"
    unfolding monthly_summary_def sum_list_sort_values groupby_agg_qty_keyed mn by (rule refl)
  have "sum_list (map (\<lambda>row. fst (snd row)) (weekly_summary df)) = sum_Qty (filter (\<lambda>r. Date r \<noteq> None) df)"
    unfolding weekly_summary_def sum_list_sort_values groupby_agg_qty_keyed wk by (rule refl)
  then have i: "sum_list (map (\<lambda>row. fst (snd row)) (weekly_shown df)) = sum_Qty (filter (\<lambda>r. Date r \<noteq> None) df)"
    by (simp add: weekly_shown_def comp_def del: not_None_eq)
  have j: "set (map fst (time_sales df)) = {d. \<exists>r \<in> set df. Date r = Some d}"
    by (simp add: time_sales_def groupby_sales_def comp_def set_group_keys)
  show ?thesis using a b c pivot_combined_filter [of df] d e f g h i j by blast
qed

theorem unmatched_rows_in_views_witness:
  "map Item_Id (process_data [[sales_s9]] [catalog_s1]) = [''77'']
   \<and> map (\<lambda>p. astype_str (p_Item_Id p)) [catalog_s1] = [''5'']
   \<and> map catalog_cols (process_data [[sales_s9]] [catalog_s1]) = [(None, None, None, None, None)]"
  using unmatched_rows_in_views [of "[[sales_s9]]" "[catalog_s1]"] eval_unmatched
  by simp

text \<open>
  The claim as written fails for the platform view: of the quantity 13 of three rows on the
  page, one of them without a catalog match, the table by platform holds 7 and the tables by
  city and by brand hold 13.
\<close>

theorem unmatched_rows_missing_by_platform:
  "map_option total_qty (shown_kpis (main (process_data [[sales_s1, sales_s9, sales_s8]] [catalog_s1]) w_all)) = Some 13
   \<and> map_option t_platform_summary (shown_tables (main (process_data [[sales_s1, sales_s9, sales_s8]] [catalog_s1]) w_all))
       = Some [(''Amazon'', 7, 70)]
   \<and> map_option t_city_summary (shown_tables (main (process_data [[sales_s1, sales_s9, sales_s8]] [catalog_s1]) w_all))
       = Some [(''Delhi'', 4, 40), (''Pune'', 9, 30)]
   \<and> map_option t_brand_summary (shown_tables (main (process_data [[sales_s1, sales_s9, sales_s8]] [catalog_s1]) w_all))
       = Some [(''Acme'', 13, 70)]"
  by (simp add: main_example eval_views_example kpis_of_def tables_of_def)

section \<open>The monthly and weekly tables and the export\<close>

lemma map_fst_groupby_agg: "map fst (groupby_agg key df) = group_keys key df"
  by (simp add: groupby_agg_def comp_def)

lemma monthly_summary_groups: "monthly_summary df = groupby_agg Month_Name df"
  unfolding monthly_summary_def sort_values_def
  by (rule sort_key_id_if_sorted) (simp add: map_fst_groupby_agg sorted_group_keys)

lemma eval_rows_monthly: "process_data [[sales_s1, sales_s8]] [catalog_s1] = [row_s1, row_s8]"
  by code_simp

lemma eval_monthly_rows:
  "monthly_summary [row_s1, row_s8] = [(''April 2025'', 4, 40), (''January 2025'', 3, 30)]"
  by code_simp

lemma eval_label: "strftime_B_Y (2025, 1, 1) = ''January 2025''"
  by code_simp

lemma eval_monthly:
  "monthly_summary (process_data [[sales_s1, sales_s8]] [catalog_s1]) =
     [(''April 2025'', 4, 40), (''January 2025'', 3, 30)]
   \<and> map Date (process_data [[sales_s1, sales_s8]] [catalog_s1]) = [Some (2025, 1, 1), Some (2025, 4, 15)]
   \<and> strftime_B_Y (2025, 1, 1) = ''January 2025''"
proof -
  have "map Date [row_s1, row_s8] = [Some (2025, 1, 1), Some (2025, 4, 15)]"
    by (simp add: row_s1_def row_s8_def)
  with eval_monthly_rows eval_label show ?thesis unfolding eval_rows_monthly by blast
qed

text \<open>
  C8. The monthly table has one row per label \<open>month name, blank, year\<close> of the dates of the
  rows, with the quantity and sales sums of the rows of that label, and its rows are in
  strictly ascending lexicographic order of the label: April 2025 comes before January 2025.
\<close>

theorem monthly_summary_lexical:
  "monthly_summary df =
     map (\<lambda>k. (k, sum_Qty (group_rows Month_Name df k), sum_Total_Sales (group_rows Month_Name df k)))
       (sort (remdups (List.map_filter Month_Name df)))
   \<and> sorted (map fst (monthly_summary df)) \<and> distinct (map fst (monthly_summary df))
   \<and> Month_Name (r\<lparr>Date := Some (y, m, d)\<rparr>) = Some (month_name m @ '' '' @ str_nat y)
   \<and> strftime_B_Y (2025, 1, 1) = ''January 2025''
   \<and> map Date (process_data [[sales_s1, sales_s8]] [catalog_s1]) = [Some (2025, 1, 1), Some (2025, 4, 15)]
   \<and> monthly_summary (process_data [[sales_s1, sales_s8]] [catalog_s1]) =
       [(''April 2025'', 4, 40), (''January 2025'', 3, 30)]"
proof -
  have 1: "monthly_summary df =
     map (\<lambda>k. (k, sum_Qty (group_rows Month_Name df k), sum_Total_Sales (group_rows Month_Name df k)))
       (sort (remdups (List.map_filter Month_Name df)))"
    by (simp add: monthly_summary_groups groupby_agg_def group_keys_def)
  have 2: "sorted (map fst (monthly_summary df))" "distinct (map fst (monthly_summary df))"
    by (simp_all add: monthly_summary_groups map_fst_groupby_agg sorted_group_keys distinct_group_keys)
  have 3: "Month_Name (r\<lparr>Date := Some (y, m, d)\<rparr>) = Some (month_name m @ '' '' @ str_nat y)"
    by (simp add: Month_Name_def)
  show ?thesis using 1 2 3 eval_monthly by blast
qed

lemma sorted_sort_values: "sorted (map k (sort_values k xs))"
  by (simp add: sort_values_def)

lemma eval_rows_weekly: "process_data [[sales_s6, sales_s7]] [catalog_s1] = [row_s6, row_s7]"
  by code_simp

lemma eval_weekdays:
  "weekday (2025, 1, 6) = 0" "Week_Start_of (2025, 1, 6) = (2024, 12, 31)" "weekday (2024, 12, 31) = 1"
  by code_simp+

lemma eval_weekly_rows:
  "weekly_summary [row_s6, row_s7] =
     [((''January 2025 Week 2'', (2024, 12, 31)), 1, 10), ((''January 2025 Week 2'', (2025, 1, 7)), 2, 20)]"
  by code_simp

lemma eval_weekly:
  "weekday (2025, 1, 6) = 0 \<and> Week_Start_of (2025, 1, 6) = (2024, 12, 31)
   \<and> weekday (2024, 12, 31) = 1
   \<and> map Date (process_data [[sales_s6, sales_s7]] [catalog_s1]) = [Some (2025, 1, 6), Some (2025, 1, 7)]
   \<and> weekly_summary (process_data [[sales_s6, sales_s7]] [catalog_s1]) =
       [((''January 2025 Week 2'', (2024, 12, 31)), 1, 10), ((''January 2025 Week 2'', (2025, 1, 7)), 2, 20)]
   \<and> weekly_shown (process_data [[sales_s6, sales_s7]] [catalog_s1]) =
       [(''January 2025 Week 2'', 1, 10), (''January 2025 Week 2'', 2, 20)]"
proof -
  have "map Date [row_s6, row_s7] = [Some (2025, 1, 6), Some (2025, 1, 7)]"
    by (simp add: row_s6_def row_s7_def)
  moreover have "weekly_shown [row_s6, row_s7] =
       [(''January 2025 Week 2'', 1, 10), (''January 2025 Week 2'', 2, 20)]"
    unfolding weekly_shown_def eval_weekly_rows by simp
  ultimately show ?thesis unfolding eval_rows_weekly using eval_weekdays eval_weekly_rows by blast
qed

text \<open>
  C7. The rows of the weekly table are in ascending order of their week start. The week start
  of Monday 2025-01-06 is Tuesday 2024-12-31, not the Monday itself: the weekly period ends on
  a Monday. Monday 2025-01-06 and Tuesday 2025-01-07, of the same ISO week 2, are in two rows
  of the table.
\<close>

theorem weekly_summary_week_start:
  "sorted (map (\<lambda>row. snd (fst row)) (weekly_summary df))
   \<and> weekday (2025, 1, 6) = 0 \<and> Week_Start_of (2025, 1, 6) = (2024, 12, 31)
   \<and> weekday (2024, 12, 31) = 1
   \<and> map Date (process_data [[sales_s6, sales_s7]] [catalog_s1]) = [Some (2025, 1, 6), Some (2025, 1, 7)]
   \<and> weekly_summary (process_data [[sales_s6, sales_s7]] [catalog_s1]) =
       [((''January 2025 Week 2'', (2024, 12, 31)), 1, 10), ((''January 2025 Week 2'', (2025, 1, 7)), 2, 20)]
   \<and> weekly_shown (process_data [[sales_s6, sales_s7]] [catalog_s1]) =
       [(''January 2025 Week 2'', 1, 10), (''January 2025 Week 2'', 2, 20)]"
proof -
  have "sorted (map (\<lambda>row. snd (fst row)) (weekly_summary df))"
    unfolding weekly_summary_def by (rule sorted_sort_values)
  then show ?thesis using eval_weekly by blast
qed

lemma eval_csv:
  "csv_header table_df_columns =
     ''Date,Item Id,City,Brand,Qty,Product Name,Category Name,Sub-Category Name,Sale Price,Platform,Total Sales,Month Name,Week Start,Month Week''"
  "csv_header raw_table_columns =
     ''Date,Item Id,City,Brand,Qty,Product Name,Category Name,Sub-Category Name,Sale Price,Platform,Total Sales''"
  by code_simp+

text \<open>
  C9. The header line of the exported CSV names all columns of \<open>table_df\<close>: the eleven
  columns of the on-screen raw table and, after them, \<open>Month Name\<close>, \<open>Week Start\<close> and
  \<open>Month Week\<close>, which the monthly and weekly tables have added to the frame.
\<close>

theorem csv_header_columns:
  "t_csv_header (tables_of table_df True) =
     Some ''Date,Item Id,City,Brand,Qty,Product Name,Category Name,Sub-Category Name,Sale Price,Platform,Total Sales,Month Name,Week Start,Month Week''
   \<and> t_csv_header (tables_of table_df False) = None
   \<and> table_df_columns = raw_table_columns @ [''Month Name'', ''Week Start'', ''Month Week'']
   \<and> csv_header raw_table_columns =
     ''Date,Item Id,City,Brand,Qty,Product Name,Category Name,Sub-Category Name,Sale Price,Platform,Total Sales''
   \<and> map_option t_csv_header
       (shown_tables (main (process_data [[sales_s1, sales_s9, sales_s8]] [catalog_s1]) w_all)) =
     Some (Some ''Date,Item Id,City,Brand,Qty,Product Name,Category Name,Sub-Category Name,Sale Price,Platform,Total Sales,Month Name,Week Start,Month Week'')"
proof -
  have "table_df_columns = raw_table_columns @ [''Month Name'', ''Week Start'', ''Month Week'']"
    by (simp add: table_df_columns_def merged_columns_def sales_columns_def raw_table_columns_def)
  then show ?thesis by (simp add: main_example tables_of_def eval_csv)
qed


end
